theory Spec2Isabelle
  imports Complex_Main "HOL-Library.AList" "HOL-Library.List_Lexorder" "HOL-Library.Char_ord"
begin

section \<open>JavaScript numbers\<close>

text \<open>
  The analysis engine of \<^verbatim>\<open>backend/routes/analysis.js\<close> computes with JavaScript
  Numbers. A Number is modelled as an exact rational or one of the three special values of
  IEEE arithmetic, so that every division by zero and every invalid date of the source has
  a value in the model, as it has in the program. Rounding of binary floating point,
  overflow to infinity and the sign of zero are not modelled.
\<close>

datatype jsnum = Num rat | PosInf | NegInf | NaN

fun js_neg :: "jsnum \<Rightarrow> jsnum" where
  "js_neg (Num a) = Num (- a)"
| "js_neg PosInf = NegInf"
| "js_neg NegInf = PosInf"
| "js_neg NaN = NaN"

text \<open>\<^verbatim>\<open>a + b\<close> on Numbers.\<close>

fun js_add :: "jsnum \<Rightarrow> jsnum \<Rightarrow> jsnum" where
  "js_add (Num a) (Num b) = Num (a + b)"
| "js_add (Num a) PosInf = PosInf"
| "js_add (Num a) NegInf = NegInf"
| "js_add PosInf (Num b) = PosInf"
| "js_add PosInf PosInf = PosInf"
| "js_add PosInf NegInf = NaN"
| "js_add NegInf (Num b) = NegInf"
| "js_add NegInf NegInf = NegInf"
| "js_add NegInf PosInf = NaN"
| "js_add NaN b = NaN"
| "js_add a NaN = NaN"

text \<open>\<^verbatim>\<open>a - b\<close>.\<close>

definition js_sub :: "jsnum \<Rightarrow> jsnum \<Rightarrow> jsnum" where
  "js_sub a b = js_add a (js_neg b)"

text \<open>An infinity with the sign of \<open>s\<close>; \<open>0 * Infinity\<close> is \<open>NaN\<close>.\<close>

definition signed_inf :: "rat \<Rightarrow> jsnum" where
  "signed_inf s = (if s = 0 then NaN else if 0 < s then PosInf else NegInf)"

text \<open>\<^verbatim>\<open>a * b\<close>.\<close>

fun js_mul :: "jsnum \<Rightarrow> jsnum \<Rightarrow> jsnum" where
  "js_mul (Num a) (Num b) = Num (a * b)"
| "js_mul (Num a) PosInf = signed_inf a"
| "js_mul (Num a) NegInf = signed_inf (- a)"
| "js_mul PosInf (Num b) = signed_inf b"
| "js_mul NegInf (Num b) = signed_inf (- b)"
| "js_mul PosInf PosInf = PosInf"
| "js_mul PosInf NegInf = NegInf"
| "js_mul NegInf PosInf = NegInf"
| "js_mul NegInf NegInf = PosInf"
| "js_mul NaN b = NaN"
| "js_mul a NaN = NaN"

text \<open>
  \<^verbatim>\<open>a / b\<close>: a nonzero number over zero is an infinity, \<open>0 / 0\<close> and
  \<open>Infinity / Infinity\<close> are \<open>NaN\<close>. Zero is taken as positive.
\<close>

fun js_div :: "jsnum \<Rightarrow> jsnum \<Rightarrow> jsnum" where
  "js_div (Num a) (Num b) = (if b = 0 then signed_inf a else Num (a / b))"
| "js_div (Num a) PosInf = Num 0"
| "js_div (Num a) NegInf = Num 0"
| "js_div PosInf (Num b) = (if 0 \<le> b then PosInf else NegInf)"
| "js_div NegInf (Num b) = (if 0 \<le> b then NegInf else PosInf)"
| "js_div PosInf PosInf = NaN"
| "js_div PosInf NegInf = NaN"
| "js_div NegInf PosInf = NaN"
| "js_div NegInf NegInf = NaN"
| "js_div NaN b = NaN"
| "js_div a NaN = NaN"

text \<open>\<^verbatim>\<open>a < b\<close>; every comparison with \<open>NaN\<close> is false.\<close>

fun js_lt :: "jsnum \<Rightarrow> jsnum \<Rightarrow> bool" where
  "js_lt (Num a) (Num b) = (a < b)"
| "js_lt (Num a) PosInf = True"
| "js_lt NegInf (Num b) = True"
| "js_lt NegInf PosInf = True"
| "js_lt a b = False"

text \<open>\<^verbatim>\<open>a === b\<close> on Numbers: \<open>NaN\<close> is not equal to itself.\<close>

definition js_eq :: "jsnum \<Rightarrow> jsnum \<Rightarrow> bool" where
  "js_eq a b = (a \<noteq> NaN \<and> a = b)"

definition js_gt :: "jsnum \<Rightarrow> jsnum \<Rightarrow> bool" where
  "js_gt a b = js_lt b a"

definition js_le :: "jsnum \<Rightarrow> jsnum \<Rightarrow> bool" where
  "js_le a b = (js_lt a b \<or> js_eq a b)"

definition js_ge :: "jsnum \<Rightarrow> jsnum \<Rightarrow> bool" where
  "js_ge a b = js_le b a"

text \<open>\<^verbatim>\<open>Math.min(a, b)\<close> and \<^verbatim>\<open>Math.max(a, b)\<close>: \<open>NaN\<close> if either argument
  is \<open>NaN\<close>.\<close>

definition js_min :: "jsnum \<Rightarrow> jsnum \<Rightarrow> jsnum" where
  "js_min a b = (if a = NaN \<or> b = NaN then NaN else if js_lt b a then b else a)"

definition js_max :: "jsnum \<Rightarrow> jsnum \<Rightarrow> jsnum" where
  "js_max a b = (if a = NaN \<or> b = NaN then NaN else if js_lt a b then b else a)"

text \<open>\<^verbatim>\<open>Math.min(...xs)\<close> and \<^verbatim>\<open>Math.max(...xs)\<close>; on no arguments they are
  \<open>Infinity\<close> and \<open>-Infinity\<close>.\<close>

definition js_min_list :: "jsnum list \<Rightarrow> jsnum" where
  "js_min_list xs = foldl js_min PosInf xs"

definition js_max_list :: "jsnum list \<Rightarrow> jsnum" where
  "js_max_list xs = foldl js_max NegInf xs"

text \<open>\<^verbatim>\<open>Math.round(x)\<close>: the nearest integer, halves upwards.\<close>

fun js_round :: "jsnum \<Rightarrow> jsnum" where
  "js_round (Num a) = Num (of_int \<lfloor>a + 1 / 2\<rfloor>)"
| "js_round a = a"

text \<open>\<^verbatim>\<open>Math.round(x * 100) / 100\<close>, the rounding to two decimals of the report.\<close>

definition round2 :: "jsnum \<Rightarrow> jsnum" where
  "round2 x = js_div (js_round (js_mul x (Num 100))) (Num 100)"

text \<open>\<^verbatim>\<open>x || 0\<close> on a Number: \<open>0\<close> and \<open>NaN\<close> are falsy.\<close>

definition or_zero :: "jsnum \<Rightarrow> jsnum" where
  "or_zero x = (if x = NaN then Num 0 else x)"

text \<open>The same on a field that may be \<^verbatim>\<open>null\<close> (\<open>None\<close>).\<close>

definition field_or_zero :: "jsnum option \<Rightarrow> jsnum" where
  "field_or_zero f = (case f of None \<Rightarrow> Num 0 | Some x \<Rightarrow> or_zero x)"

text \<open>\<^verbatim>\<open>xs.reduce((sum, x) => sum + x, 0)\<close>.\<close>

definition js_sum :: "jsnum list \<Rightarrow> jsnum" where
  "js_sum xs = foldl js_add (Num 0) xs"

section \<open>Dates\<close>

text \<open>
  A date column (\<^verbatim>\<open>date\<close>, \<^verbatim>\<open>target_date\<close>, \<^verbatim>\<open>created_at\<close>) holds
  \<^verbatim>\<open>null\<close> or a text. The text is represented by the time value (milliseconds since
  the epoch) that \<^verbatim>\<open>new Date(text)\<close> parses it to, \<open>None\<close> when the text is not a
  date. A \<^verbatim>\<open>Date\<close> object is represented by its time value, \<open>NaN\<close> for an invalid
  date. The local time zone of the calendar getters is taken to be UTC.
\<close>

datatype datefield = DNull | DText "int option"

text \<open>\<open>TimeClip\<close>: the time value of \<^verbatim>\<open>new Date(v)\<close> for a Number \<open>v\<close>.\<close>

fun time_clip :: "jsnum \<Rightarrow> jsnum" where
  "time_clip (Num q) =
     (if \<bar>q\<bar> \<le> 8640000000000000
      then Num (of_int (if 0 \<le> q then \<lfloor>q\<rfloor> else \<lceil>q\<rceil>)) else NaN)"
| "time_clip v = NaN"

text \<open>\<^verbatim>\<open>new Date(field)\<close>; \<^verbatim>\<open>new Date(null)\<close> is the epoch.\<close>

fun new_Date :: "datefield \<Rightarrow> jsnum" where
  "new_Date DNull = Num 0"
| "new_Date (DText None) = NaN"
| "new_Date (DText (Some t)) = time_clip (Num (of_int t))"

definition msPerDay :: int where
  "msPerDay = 86400000"

text \<open>Year and month (1 to 12) of the day number \<open>d\<close>, counted from 1970-01-01, in the
  proleptic Gregorian calendar.\<close>

definition civil_from_days :: "int \<Rightarrow> int \<times> int" where
  "civil_from_days d =
     (let z = d + 719468;
          era = z div 146097;
          doe = z mod 146097;
          yoe = (doe - doe div 1460 + doe div 36524 - doe div 146096) div 365;
          doy = doe - (365 * yoe + yoe div 4 - yoe div 100);
          mp = (5 * doy + 2) div 153;
          m = (if mp < 10 then mp + 3 else mp - 9);
          y = yoe + era * 400 + (if m \<le> 2 then 1 else 0)
      in (y, m))"

text \<open>\<^verbatim>\<open>getFullYear()\<close> and \<^verbatim>\<open>getMonth()\<close> (0 to 11) of a time value;
  on a \<^verbatim>\<open>Date\<close> object \<open>None\<close> stands for the \<open>NaN\<close> of an invalid date.\<close>

definition year_of_time :: "int \<Rightarrow> int" where
  "year_of_time t = fst (civil_from_days (t div msPerDay))"

definition month_of_time :: "int \<Rightarrow> int" where
  "month_of_time t = snd (civil_from_days (t div msPerDay)) - 1"

fun getFullYear :: "jsnum \<Rightarrow> int option" where
  "getFullYear (Num q) = Some (year_of_time \<lfloor>q\<rfloor>)"
| "getFullYear v = None"

fun getMonth :: "jsnum \<Rightarrow> int option" where
  "getMonth (Num q) = Some (month_of_time \<lfloor>q\<rfloor>)"
| "getMonth v = None"

text \<open>An integer result of a getter as a Number.\<close>

definition num_of :: "int option \<Rightarrow> jsnum" where
  "num_of v = (case v of None \<Rightarrow> NaN | Some i \<Rightarrow> Num (of_int i))"

text \<open>\<^verbatim>\<open>toString()\<close> of an integer: its decimal digits.\<close>

fun nat_toString :: "nat \<Rightarrow> string" where
  "nat_toString n =
     (if n < 10 then [''0123456789'' ! n]
      else nat_toString (n div 10) @ [''0123456789'' ! (n mod 10)])"

declare nat_toString.simps [simp del]

definition int_toString :: "int \<Rightarrow> string" where
  "int_toString i = (if i < 0 then CHR ''-'' # nat_toString (nat (- i)) else nat_toString (nat i))"

definition toString :: "int option \<Rightarrow> string" where
  "toString v = (case v of None \<Rightarrow> ''NaN'' | Some i \<Rightarrow> int_toString i)"

text \<open>\<^verbatim>\<open>s.padStart(2, '0')\<close>.\<close>

definition padStart2 :: "string \<Rightarrow> string" where
  "padStart2 s = replicate (2 - length s) CHR ''0'' @ s"

text \<open>The month key
  \<^verbatim>\<open>`${date.getFullYear()}-${(date.getMonth() + 1).toString().padStart(2, '0')}`\<close>
  of a date field.\<close>

definition monthKey :: "datefield \<Rightarrow> string" where
  "monthKey f =
     (let date = new_Date f
      in toString (getFullYear date) @ ''-'' @
         padStart2 (toString (map_option (\<lambda>m. m + 1) (getMonth date))))"

section \<open>Data model\<close>

text \<open>
  The rows the engine reads, with the columns it uses. Amount columns are Numbers;
  \<^verbatim>\<open>current_amount\<close> may be \<^verbatim>\<open>null\<close>. The field \<^verbatim>\<open>type\<close> of a transaction is
  \<open>ttype\<close> here, the field \<^verbatim>\<open>amount\<close> of a budget is \<open>b_amount\<close>.
\<close>

record transaction =
  date :: datefield
  amount :: jsnum
  ttype :: string
  category :: string

record target =
  target_amount :: jsnum
  current_amount :: "jsnum option"
  target_date :: datefield
  created_at :: datefield

record budget =
  category_name :: string
  b_amount :: jsnum
  month :: int
  year :: int

text \<open>
  An object used as a dictionary (\<^verbatim>\<open>categories\<close>, \<^verbatim>\<open>monthlySpending\<close>,
  \<^verbatim>\<open>monthlyIncome\<close>) is an association list in the order in which the keys were first
  written, which is the order in which JavaScript enumerates keys that are not array
  indices.
\<close>

type_synonym dict = "(string \<times> jsnum) list"

text \<open>\<^verbatim>\<open>obj[key] = (obj[key] || 0) + amount\<close>.\<close>

definition accumulate :: "string \<Rightarrow> jsnum \<Rightarrow> dict \<Rightarrow> dict" where
  "accumulate key a obj = AList.update key (js_add (field_or_zero (map_of obj key)) a) obj"

record target_analysis =
  totalTargets :: int
  totalTargetAmount :: jsnum
  totalCurrentAmount :: jsnum
  overallProgress :: jsnum
  completedTargets :: int
  onTrackTargets :: int
  behindTargets :: int

text \<open>\<open>budgetUtilization\<close> is \<open>None\<close> when the returned object has no such field.\<close>

record budget_analysis =
  totalBudgets :: int
  totalBudgetAmount :: jsnum
  totalSpent :: jsnum
  overBudget :: int
  underBudget :: int
  budgetUtilization :: "jsnum option"

record trend_analysis =
  monthlySpending :: dict
  monthlyIncome :: dict
  spendingTrend :: jsnum
  trendDirection :: string

text \<open>The report; the nested objects \<^verbatim>\<open>income\<close>, \<^verbatim>\<open>expenses\<close>,
  \<^verbatim>\<open>investments\<close>, \<^verbatim>\<open>netIncome\<close> and \<^verbatim>\<open>period\<close> are flattened, and the
  fields \<^verbatim>\<open>savingsRate\<close>, \<^verbatim>\<open>targets\<close>, \<^verbatim>\<open>budgets\<close> and \<^verbatim>\<open>trends\<close>
  carry the prefix \<open>report_\<close>.\<close>

record report =
  income_total :: jsnum
  income_monthly :: jsnum
  income_transactions :: int
  income_categories :: dict
  expenses_total :: jsnum
  expenses_monthly :: jsnum
  expenses_transactions :: int
  expenses_categories :: dict
  investments_total :: jsnum
  investments_monthly :: jsnum
  investments_transactions :: int
  netIncome_total :: jsnum
  netIncome_monthly :: jsnum
  report_savingsRate :: jsnum
  report_targets :: target_analysis
  report_budgets :: budget_analysis
  report_trends :: trend_analysis
  healthScore :: int
  period_startDate :: "datefield option"
  period_endDate :: "datefield option"
  period_totalTransactions :: int

section \<open>The analysis engine\<close>

text \<open>\<^verbatim>\<open>transactions.reduce((sum, t) => sum + t.amount, 0)\<close>.\<close>

definition sum_amounts :: "transaction list \<Rightarrow> jsnum" where
  "sum_amounts ts = js_sum (map amount ts)"

text \<open>\<^verbatim>\<open>calculateMonthlyAverage\<close>.\<close>

definition calculateMonthlyAverage :: "transaction list \<Rightarrow> jsnum" where
  "calculateMonthlyAverage transactions =
     (if length transactions = 0 then Num 0
      else
        let dates = map (\<lambda>t. new_Date (date t)) transactions;
            earliestDate = time_clip (js_min_list dates);
            latestDate = time_clip (js_max_list dates);
            monthsDiff =
              js_add
                (js_add
                  (js_mul (js_sub (num_of (getFullYear latestDate))
                                  (num_of (getFullYear earliestDate))) (Num 12))
                  (js_sub (num_of (getMonth latestDate)) (num_of (getMonth earliestDate))))
                (Num 1);
            totalAmount = sum_amounts transactions
        in js_div totalAmount monthsDiff)"

text \<open>
  \<^verbatim>\<open>entries.sort((a, b) => b.amount - a.amount)\<close>: a stable insertion sort, in which
  \<open>a\<close> goes before \<open>b\<close> when the comparator is negative. Where the comparator is
  not a consistent order (amounts that are \<open>NaN\<close>) JavaScript leaves the order to the
  implementation.
\<close>

fun insert_desc :: "string \<times> jsnum \<Rightarrow> dict \<Rightarrow> dict" where
  "insert_desc a [] = [a]"
| "insert_desc a (b # bs) =
     (if js_lt (js_sub (snd b) (snd a)) (Num 0) then a # b # bs else b # insert_desc a bs)"

definition sort_desc :: "dict \<Rightarrow> dict" where
  "sort_desc entries = foldl (\<lambda>acc a. insert_desc a acc) [] entries"

text \<open>\<^verbatim>\<open>getCategoryBreakdown\<close>; the empty category is falsy.\<close>

definition getCategoryBreakdown :: "transaction list \<Rightarrow> dict" where
  "getCategoryBreakdown transactions =
     sort_desc
       (foldl (\<lambda>categories t.
                 accumulate (if category t = [] then ''Uncategorized'' else category t)
                   (amount t) categories)
          [] transactions)"

text \<open>
  The engine reads the system clock with \<^verbatim>\<open>new Date()\<close>. A clock is the sequence of
  the time values that the successive reads of one call return.
\<close>

type_synonym clock = "nat \<Rightarrow> int"

text \<open>The two filter predicates of \<^verbatim>\<open>analyzeTargets\<close>; \<open>now\<close> is the time value of
  the \<^verbatim>\<open>new Date()\<close> in the second one.\<close>

definition is_completed :: "target \<Rightarrow> bool" where
  "is_completed t = js_ge (field_or_zero (current_amount t)) (target_amount t)"

definition is_on_track :: "int \<Rightarrow> target \<Rightarrow> bool" where
  "is_on_track now t =
     (let progress = js_div (field_or_zero (current_amount t)) (target_amount t);
          targetDate = new_Date (target_date t);
          currentDate = Num (of_int now);
          totalDays = js_div (js_sub targetDate (new_Date (created_at t)))
                             (Num (1000 * 60 * 60 * 24));
          daysPassed = js_div (js_sub currentDate (new_Date (created_at t)))
                              (Num (1000 * 60 * 60 * 24));
          expectedProgress = js_min (js_div daysPassed totalDays) (Num 1)
      in js_ge progress (js_mul expectedProgress (Num (8 / 10))))"

text \<open>\<^verbatim>\<open>analyzeTargets\<close>: the callback of the second filter reads the clock once for
  each target, in order.\<close>

definition analyzeTargets :: "clock \<Rightarrow> target list \<Rightarrow> target_analysis" where
  "analyzeTargets clk targets =
     (let totalTargets = int (length targets);
          totalTargetAmount = js_sum (map target_amount targets);
          totalCurrentAmount = js_sum (map (\<lambda>t. field_or_zero (current_amount t)) targets);
          overallProgress =
            (if js_gt totalTargetAmount (Num 0)
             then js_mul (js_div totalCurrentAmount totalTargetAmount) (Num 100) else Num 0);
          completedTargets = int (length (filter is_completed targets));
          onTrackTargets =
            int (length (filter (\<lambda>(i, t). is_on_track (clk i) t) (enumerate 0 targets)))
      in \<lparr> totalTargets = totalTargets,
           totalTargetAmount = totalTargetAmount,
           totalCurrentAmount = totalCurrentAmount,
           overallProgress = round2 overallProgress,
           completedTargets = completedTargets,
           onTrackTargets = onTrackTargets,
           behindTargets = totalTargets - completedTargets - onTrackTargets \<rparr>)"

text \<open>The expense spend of a budget's category, as both callbacks of
  \<^verbatim>\<open>analyzeBudgets\<close> compute it.\<close>

definition categorySpent :: "transaction list \<Rightarrow> budget \<Rightarrow> jsnum" where
  "categorySpent transactions budget =
     sum_amounts
       (filter (\<lambda>t. category t = category_name budget \<and> ttype t = ''expense'') transactions)"

text \<open>\<^verbatim>\<open>analyzeBudgets\<close>.\<close>

definition analyzeBudgets ::
  "budget list \<Rightarrow> transaction list \<Rightarrow> int \<Rightarrow> int \<Rightarrow> budget_analysis" where
  "analyzeBudgets budgets transactions currentMonth currentYear =
     (let currentBudgets =
            filter (\<lambda>b. month b = currentMonth \<and> year b = currentYear) budgets
      in if length currentBudgets = 0
         then \<lparr> totalBudgets = 0,
                totalBudgetAmount = Num 0,
                totalSpent = Num 0,
                overBudget = 0,
                underBudget = 0,
                budgetUtilization = None \<rparr>
         else
           let totalBudgetAmount = js_sum (map b_amount currentBudgets);
               totalSpent =
                 foldl (\<lambda>sum budget.
                          js_add sum (js_min (categorySpent transactions budget) (b_amount budget)))
                   (Num 0) currentBudgets;
               overBudget =
                 int (length (filter (\<lambda>budget.
                        js_gt (categorySpent transactions budget) (b_amount budget))
                      currentBudgets))
           in \<lparr> totalBudgets = int (length currentBudgets),
                totalBudgetAmount = totalBudgetAmount,
                totalSpent = totalSpent,
                overBudget = overBudget,
                underBudget = int (length currentBudgets) - overBudget,
                budgetUtilization =
                  Some (if js_gt totalBudgetAmount (Num 0)
                        then js_mul (js_div totalSpent totalBudgetAmount) (Num 100)
                        else Num 0) \<rparr>)"

text \<open>The loop of \<^verbatim>\<open>analyzeSpendingTrends\<close> over the transactions, on the pair of
  \<^verbatim>\<open>monthlySpending\<close> and \<^verbatim>\<open>monthlyIncome\<close>.\<close>

definition trend_step :: "dict \<times> dict \<Rightarrow> transaction \<Rightarrow> dict \<times> dict" where
  "trend_step acc t =
     (let key = monthKey (date t)
      in if ttype t = ''expense'' then (accumulate key (amount t) (fst acc), snd acc)
         else if ttype t = ''income'' then (fst acc, accumulate key (amount t) (snd acc))
         else acc)"

text \<open>The trend before it is rounded, from the finished \<^verbatim>\<open>monthlySpending\<close>.\<close>

definition raw_trend :: "dict \<Rightarrow> jsnum" where
  "raw_trend spending =
     (let months = sort (map fst spending)
      in if length months > 1
         then js_div
                (js_sub (field_or_zero (map_of spending (last months)))
                        (field_or_zero (map_of spending (hd months))))
                (Num (of_nat (length months)))
         else Num 0)"

text \<open>\<^verbatim>\<open>analyzeSpendingTrends\<close>.\<close>

definition analyzeSpendingTrends :: "transaction list \<Rightarrow> trend_analysis" where
  "analyzeSpendingTrends transactions =
     (let acc = foldl trend_step ([], []) transactions;
          monthlySpending = fst acc;
          monthlyIncome = snd acc;
          spendingTrend = raw_trend monthlySpending
      in \<lparr> monthlySpending = monthlySpending,
           monthlyIncome = monthlyIncome,
           spendingTrend = round2 spendingTrend,
           trendDirection =
             (if js_gt spendingTrend (Num 0) then ''increasing''
              else if js_lt spendingTrend (Num 0) then ''decreasing'' else ''stable'') \<rparr>)"

text \<open>\<^verbatim>\<open>calculateFinancialHealthScore\<close>, on the five members of \<^verbatim>\<open>metrics\<close>.\<close>

definition calculateFinancialHealthScore ::
  "jsnum \<Rightarrow> jsnum \<Rightarrow> target_analysis \<Rightarrow> budget_analysis \<Rightarrow> trend_analysis \<Rightarrow> int" where
  "calculateFinancialHealthScore savingsRate monthlyNetIncome targetAnalysis budgetAnalysis
       spendingTrends =
     (let savingsPoints =
            (if js_ge savingsRate (Num 20) then 30
             else if js_ge savingsRate (Num 10) then 20
             else if js_ge savingsRate (Num 5) then 10 else 0);
          incomePoints =
            (if js_gt monthlyNetIncome (Num 0) then 25
             else if js_ge monthlyNetIncome (Num (- 1000)) then 15 else 0);
          targetPoints =
            (if js_ge (overallProgress targetAnalysis) (Num 80) then 20
             else if js_ge (overallProgress targetAnalysis) (Num 50) then 15
             else if js_ge (overallProgress targetAnalysis) (Num 25) then 10 else 0);
          budgetPoints =
            (if overBudget budgetAnalysis = 0 then 15
             else if rat_of_int (overBudget budgetAnalysis)
                       \<le> rat_of_int (totalBudgets budgetAnalysis) * (3 / 10) then 10
             else 0);
          trendPoints =
            (if trendDirection spendingTrends = ''decreasing'' then 10
             else if trendDirection spendingTrends = ''stable'' then 5 else 0);
          score = savingsPoints + incomePoints + targetPoints + budgetPoints + trendPoints;
          maxScore = 30 + 25 + 20 + 15 + 10
      in \<lfloor>rat_of_int score / rat_of_int maxScore * 100 + 1 / 2\<rfloor>)"

text \<open>
  \<^verbatim>\<open>performFinancialAnalysis\<close>. The first read of the clock gives the current month and
  year; the reads of \<^verbatim>\<open>analyzeTargets\<close> follow it.
\<close>

definition performFinancialAnalysis ::
  "clock \<Rightarrow> transaction list \<Rightarrow> target list \<Rightarrow> budget list \<Rightarrow> report" where
  "performFinancialAnalysis clk transactions targets budgets =
     (let currentDate = clk 0;
          currentMonth = month_of_time currentDate + 1;
          currentYear = year_of_time currentDate;
          incomeTransactions = filter (\<lambda>t. ttype t = ''income'') transactions;
          totalIncome = sum_amounts incomeTransactions;
          monthlyIncome = calculateMonthlyAverage incomeTransactions;
          expenseTransactions = filter (\<lambda>t. ttype t = ''expense'') transactions;
          totalExpenses = sum_amounts expenseTransactions;
          monthlyExpenses = calculateMonthlyAverage expenseTransactions;
          investmentTransactions = filter (\<lambda>t. ttype t = ''investment'') transactions;
          totalInvestments = sum_amounts investmentTransactions;
          monthlyInvestments = calculateMonthlyAverage investmentTransactions;
          netIncome = js_sub totalIncome totalExpenses;
          monthlyNetIncome = js_sub monthlyIncome monthlyExpenses;
          savingsRate =
            (if js_gt totalIncome (Num 0)
             then js_mul (js_div (js_sub totalIncome totalExpenses) totalIncome) (Num 100)
             else Num 0);
          expenseCategories = getCategoryBreakdown expenseTransactions;
          incomeCategories = getCategoryBreakdown incomeTransactions;
          targetAnalysis = analyzeTargets (\<lambda>i. clk (Suc i)) targets;
          budgetAnalysis = analyzeBudgets budgets transactions currentMonth currentYear;
          spendingTrends = analyzeSpendingTrends transactions;
          healthScore =
            calculateFinancialHealthScore savingsRate monthlyNetIncome targetAnalysis
              budgetAnalysis spendingTrends
      in \<lparr> income_total = totalIncome,
           income_monthly = monthlyIncome,
           income_transactions = int (length incomeTransactions),
           income_categories = incomeCategories,
           expenses_total = totalExpenses,
           expenses_monthly = monthlyExpenses,
           expenses_transactions = int (length expenseTransactions),
           expenses_categories = expenseCategories,
           investments_total = totalInvestments,
           investments_monthly = monthlyInvestments,
           investments_transactions = int (length investmentTransactions),
           netIncome_total = netIncome,
           netIncome_monthly = monthlyNetIncome,
           report_savingsRate = round2 savingsRate,
           report_targets = targetAnalysis,
           report_budgets = budgetAnalysis,
           report_trends = spendingTrends,
           healthScore = healthScore,
           period_startDate =
             (if length transactions > 0
              then Some (date (transactions ! (length transactions - 1))) else None),
           period_endDate =
             (if length transactions > 0 then Some (date (transactions ! 0)) else None),
           period_totalTransactions = int (length transactions) \<rparr>)"

section \<open>Amounts that are not Numbers\<close>

text \<open>
  The sums of the engine are written \<^verbatim>\<open>sum + t.amount\<close> with no check of the field. To
  follow a field that is not a Number, a value is a Number, a String, \<^verbatim>\<open>null\<close> or
  \<^verbatim>\<open>undefined\<close>. A String is kept as the list of the pieces it was concatenated from:
  literal text, or the decimal text of a Number, which is not computed.
\<close>

datatype piece = Text string | Digits jsnum

datatype jsval = JNumber jsnum | JString "piece list" | JNull | JUndefined

text \<open>\<open>ToString\<close> and \<open>ToNumber\<close> of the values that are not Strings.\<close>

fun to_pieces :: "jsval \<Rightarrow> piece list" where
  "to_pieces (JNumber n) = [Digits n]"
| "to_pieces (JString ps) = ps"
| "to_pieces JNull = [Text ''null'']"
| "to_pieces JUndefined = [Text ''undefined'']"

fun is_string :: "jsval \<Rightarrow> bool" where
  "is_string (JString ps) = True"
| "is_string v = False"

fun to_number :: "jsval \<Rightarrow> jsnum" where
  "to_number (JNumber n) = n"
| "to_number JNull = Num 0"
| "to_number v = NaN"

text \<open>\<^verbatim>\<open>a + b\<close> on values: concatenation as soon as one operand is a String,
  addition of Numbers otherwise.\<close>

definition js_plus :: "jsval \<Rightarrow> jsval \<Rightarrow> jsval" where
  "js_plus a b =
     (if is_string a \<or> is_string b then JString (to_pieces a @ to_pieces b)
      else JNumber (js_add (to_number a) (to_number b)))"


section \<open>The properties as the specification words them\<close>

text \<open>The time value of a valid date field.\<close>

definition time_of :: "datefield \<Rightarrow> int" where
  "time_of d = (case new_Date d of Num q \<Rightarrow> \<lfloor>q\<rfloor> | _ \<Rightarrow> 0)"





section \<open>Sample inputs\<close>

text \<open>A clock that returns the same time at every read, and the time values of
  2024-01-15, 2024-02-15, 2024-01-01 and 2024-12-31 (midnight UTC).\<close>

definition fixed_clock :: "int \<Rightarrow> clock" where
  "fixed_clock t = (\<lambda>k. t)"

definition jan15 :: int where "jan15 = 1705276800000"

definition feb15 :: int where "feb15 = 1707955200000"

definition jan01 :: int where "jan01 = 1704067200000"

definition dec31 :: int where "dec31 = 1735603200000"

definition salary_jan :: transaction where
  "salary_jan =
     \<lparr> date = DText (Some jan15), amount = Num 1000, ttype = ''income'',
       category = ''Salary'' \<rparr>"

definition food_jan :: transaction where
  "food_jan =
     \<lparr> date = DText (Some jan15), amount = Num 500, ttype = ''expense'',
       category = ''Food'' \<rparr>"

definition food_feb :: transaction where
  "food_feb =
     \<lparr> date = DText (Some feb15), amount = Num (500004 / 1000), ttype = ''expense'',
       category = ''Food'' \<rparr>"



definition food_budget :: budget where
  "food_budget = \<lparr> category_name = ''Food'', b_amount = Num 600, month = 1, year = 2024 \<rparr>"

definition reached_target :: target where
  "reached_target =
     \<lparr> target_amount = Num 10000, current_amount = Some (Num 10000),
       target_date = DText (Some dec31), created_at = DText (Some jan01) \<rparr>"

definition late_target :: target where
  "late_target =
     \<lparr> target_amount = Num 10000, current_amount = Some (Num 100),
       target_date = DText (Some feb15), created_at = DText (Some jan01) \<rparr>"

definition dateless_target :: target where
  "dateless_target =
     \<lparr> target_amount = Num 10000, current_amount = Some (Num 100),
       target_date = DNull, created_at = DText (Some jan01) \<rparr>"

section \<open>Arithmetic of the model\<close>

lemma js_add_commute: "js_add a b = js_add b a"
  by (cases a; cases b) simp_all


lemma js_add_zero_left: "js_add (Num 0) a = a"
  by (cases a) simp_all



lemma floor_half: "\<lfloor>(1::rat) / 2\<rfloor> = 0"
  by (rule floor_unique) simp_all

lemma floor_of_int_half: "\<lfloor>rat_of_int s + 1 / 2\<rfloor> = s"
  by (rule floor_unique) simp_all

lemma score_round:
  "\<lfloor>rat_of_int s / rat_of_int (30 + 25 + 20 + 15 + 10) * 100 + 1 / 2\<rfloor> = s"
proof -
  have "rat_of_int s / rat_of_int (30 + 25 + 20 + 15 + 10) * 100 + 1 / 2
          = rat_of_int s + 1 / 2"
    by simp
  then show ?thesis by (simp add: floor_of_int_half)
qed

lemma health_range:
  "0 \<le> calculateFinancialHealthScore sr mni ta ba st \<and>
   calculateFinancialHealthScore sr mni ta ba st \<le> 100"
  unfolding calculateFinancialHealthScore_def Let_def score_round
  by (simp split: if_splits)

lemma healthScore_report:
  "healthScore (performFinancialAnalysis clk transactions targets budgets) =
     calculateFinancialHealthScore
       (if js_gt (sum_amounts (filter (\<lambda>t. ttype t = ''income'') transactions)) (Num 0)
        then js_mul
               (js_div
                 (js_sub (sum_amounts (filter (\<lambda>t. ttype t = ''income'') transactions))
                         (sum_amounts (filter (\<lambda>t. ttype t = ''expense'') transactions)))
                 (sum_amounts (filter (\<lambda>t. ttype t = ''income'') transactions)))
               (Num 100)
        else Num 0)
       (js_sub (calculateMonthlyAverage (filter (\<lambda>t. ttype t = ''income'') transactions))
               (calculateMonthlyAverage (filter (\<lambda>t. ttype t = ''expense'') transactions)))
       (analyzeTargets (\<lambda>i. clk (Suc i)) targets)
       (analyzeBudgets budgets transactions (month_of_time (clk 0) + 1) (year_of_time (clk 0)))
       (analyzeSpendingTrends transactions)"
  by (simp add: performFinancialAnalysis_def Let_def)

lemma empty_report_score: "healthScore (performFinancialAnalysis clk [] [] []) = 35"
  by (simp add: performFinancialAnalysis_def calculateFinancialHealthScore_def Let_def
      sum_amounts_def js_sum_def calculateMonthlyAverage_def js_sub_def js_gt_def js_ge_def
      js_le_def js_eq_def analyzeTargets_def analyzeBudgets_def analyzeSpendingTrends_def
      raw_trend_def round2_def enumerate_eq_zip floor_half)

section \<open>Target analysis\<close>

text \<open>Whatever the clock reads, a completed target with a positive target amount and two
  distinct valid dates passes the test of the on-track filter.\<close>

lemma completed_target_is_on_track:
  assumes amt: "target_amount t = Num T" "0 < T"
    and cur: "field_or_zero (current_amount t) = Num c" "T \<le> c"
    and dates: "new_Date (target_date t) = Num d" "new_Date (created_at t) = Num s" "d \<noteq> s"
  shows "is_completed t \<and> is_on_track now t"
proof -
  have compl: "is_completed t"
    using amt cur by (auto simp: is_completed_def js_ge_def js_le_def js_eq_def)
  define e where "e = min ((rat_of_int now - s) / (1000 * 60 * 60 * 24) / ((d - s) / (1000 * 60 * 60 * 24))) 1"
  have ex: "js_min (js_div (js_div (js_sub (Num (of_int now)) (Num s)) (Num (1000 * 60 * 60 * 24)))
                           (js_div (js_sub (Num d) (Num s)) (Num (1000 * 60 * 60 * 24))))
                   (Num 1) = Num e"
    using dates(3) by (simp add: js_sub_def js_min_def e_def min_def)
  have "e \<le> 1" by (simp add: e_def)
  then have "e * (8 / 10) \<le> 1" by simp
  moreover have "1 \<le> c / T" using amt(2) cur(2) by simp
  ultimately have "e * (8 / 10) \<le> c / T" by linarith
  then have "js_ge (Num (c / T)) (Num (e * (8 / 10)))"
    by (auto simp: js_ge_def js_le_def js_eq_def)
  moreover have "js_div (Num c) (Num T) = Num (c / T)" using amt(2) by simp
  ultimately have "is_on_track now t"
    unfolding is_on_track_def Let_def amt(1) cur(1) dates(1) dates(2) ex
    by simp
  with compl show ?thesis by simp
qed

text \<open>
  C1. The claim: \<open>onTrackTargets\<close> counts the targets that are not completed, have a target
  date and are within the 80 percent band, so that a completed target or a target without
  a target date is never counted, and \<open>behindTargets\<close> is never negative. The filter of
  \<^verbatim>\<open>analyzeTargets\<close> tests neither completion nor the presence of the date. Evaluated on
  15 January 2024: one target with 10000 of 10000 saved is counted both as completed and
  as on track, and \<open>behindTargets\<close> is \<open>-1\<close>; next to it, a target that is behind its
  pace is reported as 0 targets behind; a target whose date is \<^verbatim>\<open>null\<close> is counted on
  track.
\<close>

theorem C1_completed_target_on_track:
  "completedTargets (analyzeTargets (fixed_clock jan15) [reached_target]) = 1 \<and>
   onTrackTargets (analyzeTargets (fixed_clock jan15) [reached_target]) = 1 \<and>
   behindTargets (analyzeTargets (fixed_clock jan15) [reached_target]) = - 1 \<and>
   onTrackTargets (analyzeTargets (fixed_clock jan15) [late_target]) = 0 \<and>
   behindTargets (analyzeTargets (fixed_clock jan15) [reached_target, late_target]) = 0 \<and>
   onTrackTargets (analyzeTargets (fixed_clock jan15) [dateless_target]) = 1"
  by code_simp

section \<open>Budget analysis\<close>

text \<open>
  C2. The claim: when no budget matches the month and year, every field of the budget
  analysis is zero, the budget utilization included, which is never absent. The early
  return of \<^verbatim>\<open>analyzeBudgets\<close> builds an object of five zero fields and no
  \<^verbatim>\<open>budgetUtilization\<close>; the other return has the field, and gives it the value 0 when
  the budgeted amount is not positive.
\<close>

theorem C2_no_budget_utilization:
  "analyzeBudgets [] [] 1 2024 =
     \<lparr> totalBudgets = 0, totalBudgetAmount = Num 0, totalSpent = Num 0, overBudget = 0,
       underBudget = 0, budgetUtilization = None \<rparr> \<and>
   budgetUtilization (analyzeBudgets [food_budget] [food_jan] 2 2024) = None \<and>
   budgetUtilization (analyzeBudgets [food_budget\<lparr>b_amount := Num 0\<rparr>] [] 1 2024)
     = Some (Num 0)"
  by (simp add: analyzeBudgets_def food_budget_def food_jan_def Let_def js_sum_def js_gt_def
      categorySpent_def sum_amounts_def js_min_def)

section \<open>Health score\<close>

text \<open>
  C4 as stated: the health score of fully empty input collections is exactly 5. On empty
  input the net income 0 earns the 15 points of \<open>\<ge> -1000\<close> and the absence of budgets over
  their limit earns 15 more, so the score is not 5.
\<close>

theorem C4_empty_score_counterexample:
  "healthScore (performFinancialAnalysis (fixed_clock jan15) [] [] []) \<noteq> 5"
  by (simp add: empty_report_score)

text \<open>
  C4, amended: for every input the health score is an integer from 0 to 100, in the report
  and for every value of the five metrics, \<open>NaN\<close> and the infinities included; for fully
  empty input collections it is exactly 35.
\<close>

theorem C4_health_score_range:
  "0 \<le> healthScore (performFinancialAnalysis clk transactions targets budgets) \<and>
   healthScore (performFinancialAnalysis clk transactions targets budgets) \<le> 100 \<and>
   0 \<le> calculateFinancialHealthScore sr mni ta ba st \<and>
   calculateFinancialHealthScore sr mni ta ba st \<le> 100 \<and>
   healthScore (performFinancialAnalysis clk [] [] []) = 35"
  using health_range empty_report_score by (simp add: healthScore_report)

text \<open>C4, at a concrete input: one salary of 1000, and the empty collections.\<close>

theorem C4_health_score_range_witness:
  "0 \<le> healthScore (performFinancialAnalysis (fixed_clock jan15) [salary_jan] [] []) \<and>
   healthScore (performFinancialAnalysis (fixed_clock jan15) [salary_jan] [] []) \<le> 100 \<and>
   healthScore (performFinancialAnalysis (fixed_clock jan15) [] [] []) = 35"
  using C4_health_score_range [of "fixed_clock jan15" "[salary_jan]" "[]" "[]"]
  by simp

section \<open>Dates and monthly averages\<close>

lemma new_Date_cases:
  "new_Date d = NaN \<or> (\<exists>k. new_Date d = Num (of_int k) \<and> \<bar>k\<bar> \<le> 8640000000000000)"
proof (cases d)
  case DNull
  then have "new_Date d = Num (of_int 0)" by simp
  then show ?thesis by fastforce
next
  case (DText x)
  show ?thesis
  proof (cases x)
    case None
    with DText show ?thesis by simp
  next
    case (Some t)
    with DText show ?thesis by (cases "\<bar>t\<bar> \<le> 8640000000000000") auto
  qed
qed

lemma time_clip_of_int:
  assumes "\<bar>k\<bar> \<le> 8640000000000000"
  shows "time_clip (Num (of_int k)) = Num (of_int k)"
proof -
  have "rat_of_int \<bar>k\<bar> \<le> rat_of_int 8640000000000000"
    using assms by (simp only: of_int_le_iff)
  then have "\<bar>rat_of_int k\<bar> \<le> 8640000000000000" by simp
  then show ?thesis by simp
qed

lemma months_diff_single:
  "js_add
     (js_add (js_mul (js_sub (num_of (getFullYear (Num (of_int k))))
                             (num_of (getFullYear (Num (of_int k))))) (Num 12))
        (js_sub (num_of (getMonth (Num (of_int k)))) (num_of (getMonth (Num (of_int k))))))
     (Num 1) = Num 1"
  by (simp add: num_of_def js_sub_def)

lemma monthly_average_single:
  assumes "new_Date (date tx) \<noteq> NaN"
  shows "calculateMonthlyAverage [tx] = amount tx"
proof -
  from assms new_Date_cases [of "date tx"] obtain k
    where k: "new_Date (date tx) = Num (of_int k)" "\<bar>k\<bar> \<le> 8640000000000000"
    by blast
  have mn: "js_min_list [Num (of_int k)] = Num (of_int k)"
    by (simp add: js_min_list_def js_min_def)
  have mx: "js_max_list [Num (of_int k)] = Num (of_int k)"
    by (simp add: js_max_list_def js_max_def)
  have sm: "sum_amounts [tx] = amount tx"
    by (simp add: sum_amounts_def js_sum_def js_add_zero_left)
  have dv: "js_div (amount tx) (Num 1) = amount tx"
    by (cases "amount tx") simp_all
  show ?thesis
    unfolding calculateMonthlyAverage_def Let_def
    by (simp only: list.map k mn mx time_clip_of_int [OF k(2)] months_diff_single sm dv
        list.size length_Cons) simp
qed

section \<open>The report of a single income\<close>

text \<open>
  C3. For every input of exactly one income transaction of amount 1000, dated in some
  month, with no targets and no budgets, the report has total income 1000, total expenses
  0, net income 1000, savings rate 100 and health score 75, at every reading of the clock.
\<close>

theorem C3_single_income:
  assumes "ttype tx = ''income''" and "amount tx = Num 1000"
    and "new_Date (date tx) \<noteq> NaN"
  shows "income_total (performFinancialAnalysis clk [tx] [] []) = Num 1000 \<and>
         expenses_total (performFinancialAnalysis clk [tx] [] []) = Num 0 \<and>
         netIncome_total (performFinancialAnalysis clk [tx] [] []) = Num 1000 \<and>
         report_savingsRate (performFinancialAnalysis clk [tx] [] []) = Num 100 \<and>
         healthScore (performFinancialAnalysis clk [tx] [] []) = 75"
proof -
  have inc: "filter (\<lambda>t. ttype t = ''income'') [tx] = [tx]"
    and exp: "filter (\<lambda>t. ttype t = ''expense'') [tx] = []"
    and inv: "filter (\<lambda>t. ttype t = ''investment'') [tx] = []"
    using assms(1) by simp_all
  have tot: "sum_amounts [tx] = Num 1000" "sum_amounts [] = Num 0"
    using assms(2) by (simp_all add: sum_amounts_def js_sum_def)
  have avg: "calculateMonthlyAverage [tx] = Num 1000" "calculateMonthlyAverage [] = Num 0"
    using monthly_average_single [OF assms(3)] assms(2)
    by (simp_all add: calculateMonthlyAverage_def)
  have tg: "overallProgress (analyzeTargets (\<lambda>i. clk (Suc i)) []) = Num 0"
    by (simp add: analyzeTargets_def Let_def js_sum_def js_gt_def round2_def floor_half)
  have bd: "overBudget (analyzeBudgets [] [tx] (month_of_time (clk 0) + 1) (year_of_time (clk 0))) = 0"
    by (simp add: analyzeBudgets_def)
  have tr: "trendDirection (analyzeSpendingTrends [tx]) = ''stable''"
    using assms(1)
    by (simp add: analyzeSpendingTrends_def Let_def trend_step_def raw_trend_def js_gt_def)
  have r2: "round2 (Num 100) = Num 100"
    by (simp add: round2_def floor_of_int_half [of 10000, simplified])
  have hs: "healthScore (performFinancialAnalysis clk [tx] [] []) = 75"
    unfolding healthScore_report inc exp tot avg
    by (simp add: calculateFinancialHealthScore_def Let_def tg bd tr js_sub_def js_gt_def
        js_ge_def js_le_def js_eq_def floor_half)
  have flds:
    "income_total (performFinancialAnalysis clk [tx] [] []) = Num 1000 \<and>
     expenses_total (performFinancialAnalysis clk [tx] [] []) = Num 0 \<and>
     netIncome_total (performFinancialAnalysis clk [tx] [] []) = Num 1000 \<and>
     report_savingsRate (performFinancialAnalysis clk [tx] [] []) = Num 100"
    using assms(1) tot by (simp add: performFinancialAnalysis_def Let_def js_sub_def js_gt_def r2)
  show ?thesis
    using flds hs by blast
qed

text \<open>C3 at the salary of 15 January 2024.\<close>

theorem C3_single_income_witness:
  "ttype salary_jan = ''income'' \<and> amount salary_jan = Num 1000 \<and>
   new_Date (date salary_jan) \<noteq> NaN \<and>
   income_total (performFinancialAnalysis (fixed_clock jan15) [salary_jan] [] []) = Num 1000 \<and>
   healthScore (performFinancialAnalysis (fixed_clock jan15) [salary_jan] [] []) = 75"
proof -
  have h: "ttype salary_jan = ''income''" "amount salary_jan = Num 1000"
    "new_Date (date salary_jan) \<noteq> NaN"
    by (simp_all add: salary_jan_def jan15_def)
  show ?thesis
    using h C3_single_income [OF h, of "fixed_clock jan15"] by simp
qed

section \<open>Budgets against actual spending\<close>





section \<open>The period of the report\<close>

lemma period_fields:
  "period_startDate (performFinancialAnalysis clk transactions targets budgets) =
     (if transactions = [] then None else Some (date (last transactions))) \<and>
   period_endDate (performFinancialAnalysis clk transactions targets budgets) =
     (if transactions = [] then None else Some (date (hd transactions)))"
  by (simp add: performFinancialAnalysis_def Let_def last_conv_nth hd_conv_nth)

lemma sorted_desc_ends:
  assumes "sorted_wrt (\<lambda>a b. time_of (date b) \<le> time_of (date a)) transactions"
    and "t \<in> set transactions"
  shows "time_of (date (last transactions)) \<le> time_of (date t) \<and>
         time_of (date t) \<le> time_of (date (hd transactions))"
  using assms
proof (induction transactions)
  case Nil
  then show ?case by simp
next
  case (Cons a ts)
  show ?case
  proof (cases "ts = []")
    case True
    with Cons.prems show ?thesis by simp
  next
    case False
    from Cons.prems have srt: "sorted_wrt (\<lambda>a b. time_of (date b) \<le> time_of (date a)) ts"
      and below: "\<forall>b\<in>set ts. time_of (date b) \<le> time_of (date a)"
      by simp_all
    from False have lst: "last ts \<in> set ts" by simp
    show ?thesis
    proof (cases "t = a")
      case True
      with False below lst show ?thesis by simp
    next
      case neq: False
      with Cons.prems have "t \<in> set ts" by simp
      with Cons.IH [OF srt] below False show ?thesis by simp
    qed
  qed
qed

text \<open>
  C10. For every transactions array, the start date of the period is the date field of the
  last element and the end date is the date field of the first element, both null for the
  empty array. When the array is sorted descending by date, these are the earliest and the
  latest date of all transactions; for the array of a January transaction followed by a
  February one they are not: the start date is the later one.
\<close>

theorem C10_period_first_last:
  "period_startDate (performFinancialAnalysis clk [] targets budgets) = None \<and>
   period_endDate (performFinancialAnalysis clk [] targets budgets) = None \<and>
   (transactions \<noteq> [] \<longrightarrow>
      period_startDate (performFinancialAnalysis clk transactions targets budgets)
        = Some (date (last transactions)) \<and>
      period_endDate (performFinancialAnalysis clk transactions targets budgets)
        = Some (date (hd transactions))) \<and>
   (sorted_wrt (\<lambda>a b. time_of (date b) \<le> time_of (date a)) transactions \<longrightarrow>
      (\<forall>t\<in>set transactions.
         time_of (date (last transactions)) \<le> time_of (date t) \<and>
         time_of (date t) \<le> time_of (date (hd transactions)))) \<and>
   period_startDate (performFinancialAnalysis clk [food_jan, food_feb] targets budgets)
     = Some (date food_feb) \<and>
   time_of (date food_jan) < time_of (date food_feb)"
proof -
  have cex: "time_of (date food_jan) < time_of (date food_feb)"
    by (simp add: time_of_def food_jan_def food_feb_def jan15_def feb15_def)
  have srt: "sorted_wrt (\<lambda>a b. time_of (date b) \<le> time_of (date a)) transactions \<longrightarrow>
      (\<forall>t\<in>set transactions.
         time_of (date (last transactions)) \<le> time_of (date t) \<and>
         time_of (date t) \<le> time_of (date (hd transactions)))"
    using sorted_desc_ends [of transactions] by blast
  have fl: "period_startDate (performFinancialAnalysis clk [food_jan, food_feb] targets budgets)
     = Some (date food_feb)"
    by (simp add: period_fields)
  show ?thesis
    using srt cex fl by (simp add: period_fields)
qed

text \<open>C10 on the array of the February transaction followed by the January one, which is
  sorted descending.\<close>

theorem C10_period_first_last_witness:
  "[food_feb, food_jan] \<noteq> [] \<and>
   sorted_wrt (\<lambda>a b. time_of (date b) \<le> time_of (date a)) [food_feb, food_jan] \<and>
   period_startDate (performFinancialAnalysis (fixed_clock jan15) [food_feb, food_jan] [] [])
     = Some (date food_jan) \<and>
   period_endDate (performFinancialAnalysis (fixed_clock jan15) [food_feb, food_jan] [] [])
     = Some (date food_feb) \<and>
   time_of (date food_jan) \<le> time_of (date food_feb)"
proof -
  have s: "sorted_wrt (\<lambda>a b. time_of (date b) \<le> time_of (date a)) [food_feb, food_jan]"
    by (simp add: time_of_def food_jan_def food_feb_def jan15_def feb15_def)
  show ?thesis
    using s C10_period_first_last [of "fixed_clock jan15" "[]" "[]" "[food_feb, food_jan]"]
    by simp
qed

section \<open>The system clock\<close>












section \<open>Sums over amounts that are not Numbers\<close>


lemma js_plus_result: "(\<exists>n. js_plus a b = JNumber n) \<or> is_string (js_plus a b)"
  by (simp add: js_plus_def)











section \<open>Months spanned\<close>











section \<open>Spending trend\<close>












end
